theory Spec2Isabelle
  imports Complex_Main "HOL-Library.Multiset"
begin

section \<open>Python strings and exceptions\<close>

text \<open>
  A Python \<open>str\<close> is modelled as a \<open>string\<close>, one \<open>char\<close> per character, so
  that \<open>length\<close> is Python's \<open>len\<close>. The characters covered are the code points
  0 to 255. \<open>isspace\<close> is \<open>str.isspace\<close> on one character of that range, and
  \<open>strip\<close> is \<open>str.strip()\<close> without arguments.
\<close>

definition isspace :: "char \<Rightarrow> bool" where
  "isspace c =
     (let n = (of_char c :: nat)
      in (9 \<le> n \<and> n \<le> 13) \<or> (28 \<le> n \<and> n \<le> 32) \<or> n = 133 \<or> n = 160)"

definition strip :: "string \<Rightarrow> string" where
  "strip s = rev (dropWhile isspace (rev (dropWhile isspace s)))"

text \<open>\<open>sep.join(xs)\<close>.\<close>

fun join :: "string \<Rightarrow> string list \<Rightarrow> string" where
  "join sep [] = []"
| "join sep [x] = x"
| "join sep (x # y # ys) = x @ sep @ join sep (y # ys)"

text \<open>\<open>sub in text\<close>, which is also \<open>re.search(re.escape(sub), text)\<close>.\<close>

fun contains :: "string \<Rightarrow> string \<Rightarrow> bool" where
  "contains sub [] = (sub = [])"
| "contains sub (c # cs) = (take (length sub) (c # cs) = sub \<or> contains sub cs)"

text \<open>
  The exceptions that rag.py raises or catches. \<open>LibraryError\<close> stands for any
  exception raised inside a third-party call (PyPDF2, FAISS, the embedding model, the
  Groq client); it carries the text that \<open>str(e)\<close> returns. Every public function of
  rag.py catches \<open>Exception\<close> and raises a plain \<open>Exception\<close> whose message is a
  prefix followed by \<open>str(e)\<close>.
\<close>

datatype exc =
    ValueError string
  | FileNotFoundError string
  | IndexError string
  | KeyError string
  | LibraryError string
  | Exception string

fun str :: "exc \<Rightarrow> string" where
  "str (ValueError m) = m"
| "str (FileNotFoundError m) = m"
| "str (IndexError m) = m"
| "str (KeyError m) = [CHR 0x27] @ m @ [CHR 0x27]"
| "str (LibraryError m) = m"
| "str (Exception m) = m"

text \<open>\<open>try: ... except Exception as e: raise Exception(prefix + str(e))\<close>.\<close>

definition reraise :: "string \<Rightarrow> exc + 'a \<Rightarrow> exc + 'a" where
  "reraise prefix r = (case r of Inl e \<Rightarrow> Inl (Exception (prefix @ str e)) | Inr v \<Rightarrow> Inr v)"

section \<open>The text splitter\<close>

text \<open>
  \<open>get_text_chunks\<close> builds a \<open>RecursiveCharacterTextSplitter\<close> of the langchain
  library with \<open>chunk_size=1000\<close>, \<open>chunk_overlap=200\<close>, \<open>length_function=len\<close> and
  \<open>separators=["\n\n", "\n", " ", ""]\<close> (rag.py, lines 51 to 56). The library's
  defaults apply to the rest: separators are kept at the start of the piece that
  follows them, separators are literal text, and merged chunks are stripped.
  The definitions below follow the library's \<open>_split_text_with_regex\<close>,
  \<open>_join_docs\<close>, \<open>_merge_splits\<close> and \<open>_split_text\<close>.
\<close>

definition chunk_size :: int where
  "chunk_size = 1000"

definition chunk_overlap :: int where
  "chunk_overlap = 200"

definition separators :: "string list" where
  "separators = [[CHR 0x0A, CHR 0x0A], [CHR 0x0A], [CHR 0x20], []]"

text \<open>
  \<open>re.split\<close> on a literal, non-empty separator: the text between the leftmost
  non-overlapping occurrences of \<open>sep\<close>. \<open>cur\<close> is the piece being read.
\<close>

function re_split :: "string \<Rightarrow> string \<Rightarrow> string \<Rightarrow> string list" where
  "re_split sep cur [] = [cur]"
| "re_split sep cur (c # cs) =
     (if sep \<noteq> [] \<and> take (length sep) (c # cs) = sep
      then cur # re_split sep [] (drop (length sep) (c # cs))
      else re_split sep (cur @ [c]) cs)"
  by pat_completeness auto
termination
  by (relation "measure (\<lambda>(sep, cur, text). length text)") auto

text \<open>
  \<open>_split_text_with_regex(text, separator, keep_separator=True)\<close>: with a separator,
  the first piece followed by each later piece with the separator in front of it;
  without one, the characters of the text. Empty pieces are dropped.
\<close>

definition split_text_with_regex :: "string \<Rightarrow> string \<Rightarrow> string list" where
  "split_text_with_regex text separator =
     filter (\<lambda>s. s \<noteq> [])
       (if separator \<noteq> []
        then (case re_split separator [] text of
                [] \<Rightarrow> []
              | t0 # ts \<Rightarrow> t0 # map (\<lambda>t. separator @ t) ts)
        else map (\<lambda>c. [c]) text)"

text \<open>\<open>_join_docs\<close>: the joined text, stripped; \<open>None\<close> when nothing is left.\<close>

definition join_docs :: "string list \<Rightarrow> string \<Rightarrow> string option" where
  "join_docs docs separator =
     (let text = strip (join separator docs)
      in if text = [] then None else Some text)"

text \<open>
  The inner \<open>while\<close> loop of \<open>_merge_splits\<close>, which drops pieces from the front of
  \<open>current_doc\<close>. \<open>current_doc[0]\<close> on an empty list raises \<open>IndexError\<close>.
\<close>

fun pop_current :: "int \<Rightarrow> int \<Rightarrow> string list \<Rightarrow> int \<Rightarrow> exc + (string list \<times> int)" where
  "pop_current separator_len len current_doc tot =
     (if tot > chunk_overlap
         \<or> (tot + len + (if length current_doc > 0 then separator_len else 0) > chunk_size
            \<and> tot > 0)
      then (case current_doc of
              [] \<Rightarrow> Inl (IndexError ''list index out of range'')
            | d0 # rest \<Rightarrow>
                pop_current separator_len len rest
                  (tot - (int (length d0) + (if length current_doc > 1 then separator_len else 0))))
      else Inr (current_doc, tot))"

text \<open>
  The \<open>for\<close> loop of \<open>_merge_splits\<close> over the remaining splits, with the state
  \<open>docs\<close>, \<open>current_doc\<close>, \<open>tot\<close> (the source's \<open>total\<close>), and the final join after the loop.
\<close>

fun merge_loop ::
  "string \<Rightarrow> string list \<Rightarrow> string list \<Rightarrow> string list \<Rightarrow> int \<Rightarrow> exc + string list" where
  "merge_loop separator [] docs current_doc tot =
     Inr (docs @ (case join_docs current_doc separator of None \<Rightarrow> [] | Some doc \<Rightarrow> [doc]))"
| "merge_loop separator (d # ds) docs current_doc tot =
     (let len = int (length d);
          separator_len = int (length separator)
      in if tot + len + (if length current_doc > 0 then separator_len else 0) > chunk_size
         then
           (if length current_doc > 0
            then
              (let docs' = docs @ (case join_docs current_doc separator of
                                     None \<Rightarrow> [] | Some doc \<Rightarrow> [doc])
               in case pop_current separator_len len current_doc tot of
                    Inl e \<Rightarrow> Inl e
                  | Inr (current_doc', tot') \<Rightarrow>
                      merge_loop separator ds docs' (current_doc' @ [d])
                        (tot' + len + (if length (current_doc' @ [d]) > 1 then separator_len else 0)))
            else merge_loop separator ds docs (current_doc @ [d])
                   (tot + len + (if length (current_doc @ [d]) > 1 then separator_len else 0)))
         else merge_loop separator ds docs (current_doc @ [d])
                (tot + len + (if length (current_doc @ [d]) > 1 then separator_len else 0)))"

definition merge_splits :: "string list \<Rightarrow> string \<Rightarrow> exc + string list" where
  "merge_splits splits separator = merge_loop separator splits [] [] 0"

text \<open>
  The search for the separator at the head of \<open>_split_text\<close>: the first separator
  that is empty or occurs in the text, with the separators after it; an empty
  separator leaves \<open>new_separators\<close> empty.
\<close>

fun find_separator :: "string \<Rightarrow> string list \<Rightarrow> (string \<times> string list) option" where
  "find_separator text [] = None"
| "find_separator text (s # rest) =
     (if s = [] then Some (s, [])
      else if contains s text then Some (s, rest)
      else find_separator text rest)"

definition choose_separator :: "string \<Rightarrow> string list \<Rightarrow> string" where
  "choose_separator text seps =
     (case find_separator text seps of Some (s, new) \<Rightarrow> s | None \<Rightarrow> last seps)"

definition new_separators :: "string \<Rightarrow> string list \<Rightarrow> string list" where
  "new_separators text seps =
     (case find_separator text seps of Some (s, new) \<Rightarrow> new | None \<Rightarrow> [])"

text \<open>
  The \<open>for\<close> loop of \<open>_split_text\<close> over the splits, with the state
  \<open>_good_splits\<close>, \<open>final_chunks\<close>, and the last merge after the loop.
  \<open>recurse\<close> is \<open>self._split_text(s, new_separators)\<close>; the chunks are merged with
  the separator \<open>""\<close>, since separators are kept inside the pieces.
\<close>

fun split_loop ::
  "(string \<Rightarrow> exc + string list) \<Rightarrow> string list \<Rightarrow> string list \<Rightarrow> string list \<Rightarrow> string list
     \<Rightarrow> exc + string list" where
  "split_loop recurse new_seps [] good_splits final_chunks =
     (if good_splits \<noteq> []
      then (case merge_splits good_splits [] of
              Inl e \<Rightarrow> Inl e
            | Inr merged_text \<Rightarrow> Inr (final_chunks @ merged_text))
      else Inr final_chunks)"
| "split_loop recurse new_seps (s # ss) good_splits final_chunks =
     (if int (length s) < chunk_size
      then split_loop recurse new_seps ss (good_splits @ [s]) final_chunks
      else
        (case (if good_splits \<noteq> []
               then (case merge_splits good_splits [] of
                       Inl e \<Rightarrow> Inl e
                     | Inr merged_text \<Rightarrow> Inr (final_chunks @ merged_text))
               else Inr final_chunks) of
           Inl e \<Rightarrow> Inl e
         | Inr final_chunks' \<Rightarrow>
             (if new_seps = []
              then split_loop recurse new_seps ss [] (final_chunks' @ [s])
              else (case recurse s of
                      Inl e \<Rightarrow> Inl e
                    | Inr other_info \<Rightarrow>
                        split_loop recurse new_seps ss [] (final_chunks' @ other_info)))))"

lemma find_separator_shorter:
  "find_separator text seps = Some (s, new) \<Longrightarrow> length new < length seps"
  by (induction seps) (auto split: if_splits)

lemma new_separators_shorter:
  "seps \<noteq> [] \<Longrightarrow> length (new_separators text seps) < length seps"
  by (auto simp: new_separators_def split: option.splits dest: find_separator_shorter)

text \<open>
  \<open>_split_text(text, separators)\<close>. With an empty list of separators the first
  statement, \<open>separators[-1]\<close>, raises \<open>IndexError\<close>.
\<close>

function split_text_rec :: "string \<Rightarrow> string list \<Rightarrow> exc + string list" where
  "split_text_rec text seps =
     (if seps = [] then Inl (IndexError ''list index out of range'')
      else split_loop (\<lambda>s. split_text_rec s (new_separators text seps))
             (new_separators text seps)
             (split_text_with_regex text (choose_separator text seps)) [] [])"
  by pat_completeness auto
termination
  by (relation "measure (\<lambda>(text, seps). length seps)") (auto simp: new_separators_shorter)

text \<open>\<open>text_splitter.split_text(text)\<close> for the splitter configured in rag.py.\<close>

definition split_text :: "string \<Rightarrow> exc + string list" where
  "split_text text = split_text_rec text separators"

section \<open>The chunker\<close>

text \<open>\<open>get_text_chunks\<close> (rag.py, lines 45 to 67).\<close>

definition get_text_chunks :: "string \<Rightarrow> exc + string list" where
  "get_text_chunks text =
     reraise ''Error splitting text: ''
       (if strip text = [] then Inl (ValueError ''Input text is empty'')
        else (case split_text text of
                Inl e \<Rightarrow> Inl e
              | Inr chunks \<Rightarrow>
                  (let chunks' = filter (\<lambda>chunk. length (strip chunk) > 50) chunks
                   in if chunks' = [] then Inl (ValueError ''No valid text chunks created'')
                      else Inr chunks')))"


section \<open>The world outside rag.py\<close>

text \<open>
  The file system maps a path to the content stored there; \<open>os.path.exists(p)\<close> is
  \<open>fs w p \<noteq> None\<close>. \<open>environ\<close> is the process environment after \<open>load_dotenv()\<close>,
  \<open>stdout\<close> the lines printed so far, and \<open>calls\<close> the calls made so far to the vector
  store and to the completion service, in order.
\<close>

type_synonym path = string

record llm_config =
  api_key :: string
  model :: string
  temperature :: rat
  max_tokens :: nat

datatype call =
    SaveLocal path
  | LoadLocal path
  | SimilaritySearch string nat
  | Invoke llm_config string

record 'f world =
  fs :: "path \<Rightarrow> 'f option"
  environ :: "string \<Rightarrow> string option"
  stdout :: "string list"
  calls :: "call list"

text \<open>
  The third-party calls of rag.py, as parameters. Each returns its value or the
  exception it raises. \<open>'f\<close> is the content of a file or directory, \<open>'emb\<close> the
  embedding model, \<open>'idx\<close> a FAISS vector store in memory, \<open>'llm\<close> a chat model client.
  \<^item> \<open>module_dir\<close> is \<open>os.path.dirname(os.path.abspath(__file__))\<close>;
  \<^item> \<open>PdfReader\<close> gives the result of \<open>extract_text()\<close> for each page of a file;
  \<^item> \<open>HuggingFaceEmbeddings\<close> is the constructor call with the fixed model name and device;
  \<^item> \<open>from_texts\<close> is \<open>FAISS.from_texts\<close>;
  \<^item> \<open>save_local\<close> takes the store and the old content at the path, and gives the
    outcome together with the content it leaves at the path;
  \<^item> \<open>load_local\<close> is \<open>FAISS.load_local\<close> on what is found at the path;
  \<^item> \<open>similarity_search\<close> gives the \<open>page_content\<close> of the documents found, in order;
  \<^item> \<open>ChatGroq\<close> is the constructor, \<open>invoke\<close> gives the content of the reply.
\<close>

record ('f, 'emb, 'idx, 'llm) backend =
  module_dir :: path
  PdfReader :: "'f \<Rightarrow> exc + string list"
  HuggingFaceEmbeddings :: "exc + 'emb"
  from_texts :: "string list \<Rightarrow> 'emb \<Rightarrow> exc + 'idx"
  save_local :: "'idx \<Rightarrow> 'f option \<Rightarrow> (exc + unit) \<times> 'f option"
  load_local :: "'f option \<Rightarrow> 'emb \<Rightarrow> exc + 'idx"
  similarity_search :: "'idx \<Rightarrow> string \<Rightarrow> nat \<Rightarrow> exc + string list"
  ChatGroq :: "llm_config \<Rightarrow> exc + 'llm"
  invoke :: "'llm \<Rightarrow> string \<Rightarrow> exc + string"

text \<open>
  A statement of rag.py takes the world and gives its value, or the exception it
  raises, with the world it leaves.
\<close>

definition ret :: "'a \<Rightarrow> 'f world \<Rightarrow> (exc + 'a) \<times> 'f world" where
  "ret v w = (Inr v, w)"

definition raise :: "exc \<Rightarrow> 'f world \<Rightarrow> (exc + 'a) \<times> 'f world" where
  "raise e w = (Inl e, w)"

definition lift :: "exc + 'a \<Rightarrow> 'f world \<Rightarrow> (exc + 'a) \<times> 'f world" where
  "lift r w = (r, w)"

definition andthen ::
  "('f world \<Rightarrow> (exc + 'a) \<times> 'f world) \<Rightarrow> ('a \<Rightarrow> 'f world \<Rightarrow> (exc + 'b) \<times> 'f world)
     \<Rightarrow> 'f world \<Rightarrow> (exc + 'b) \<times> 'f world" where
  "andthen m f w = (case m w of (Inl e, w') \<Rightarrow> (Inl e, w') | (Inr v, w') \<Rightarrow> f v w')"

definition try_except ::
  "string \<Rightarrow> ('f world \<Rightarrow> (exc + 'a) \<times> 'f world) \<Rightarrow> 'f world \<Rightarrow> (exc + 'a) \<times> 'f world" where
  "try_except prefix m w = (case m w of (r, w') \<Rightarrow> (reraise prefix r, w'))"

definition print :: "string \<Rightarrow> 'f world \<Rightarrow> (exc + unit) \<times> 'f world" where
  "print line w = (Inr (), w\<lparr>stdout := stdout w @ [line]\<rparr>)"

fun print_all :: "string list \<Rightarrow> 'f world \<Rightarrow> (exc + unit) \<times> 'f world" where
  "print_all [] w = (Inr (), w)"
| "print_all (line # rest) w = andthen (print line) (\<lambda>_. print_all rest) w"

definition record_call :: "call \<Rightarrow> 'f world \<Rightarrow> (exc + unit) \<times> 'f world" where
  "record_call c w = (Inr (), w\<lparr>calls := calls w @ [c]\<rparr>)"

text \<open>\<open>os.path.join(a, b)\<close> on POSIX paths.\<close>

definition path_join :: "path \<Rightarrow> path \<Rightarrow> path" where
  "path_join a b =
     (if b \<noteq> [] \<and> hd b = CHR ''/'' then b
      else if a = [] \<or> last a = CHR ''/'' then a @ b
      else a @ ''/'' @ b)"

text \<open>\<open>str(n)\<close> for a length.\<close>

fun str_nat :: "nat \<Rightarrow> string" where
  "str_nat n =
     (if n < 10 then [char_of (48 + n)]
      else str_nat (n div 10) @ [char_of (48 + n mod 10)])"

section \<open>Ingestion\<close>

text \<open>\<open>get_pdf_text\<close> (rag.py, lines 24 to 43): the loop over the pages of one reader.\<close>

fun read_pages :: "string list \<Rightarrow> string \<Rightarrow> string" where
  "read_pages [] text = text"
| "read_pages (extracted_text # pages) text =
     read_pages pages
       (if extracted_text \<noteq> [] then text @ extracted_text @ [CHR 0x0A] else text)"

text \<open>The loop over \<open>pdf_paths\<close>, each turn inside its \<open>try\<close>.\<close>

fun read_pdfs ::
  "('f, 'emb, 'idx, 'llm) backend \<Rightarrow> 'f world \<Rightarrow> path list \<Rightarrow> string \<Rightarrow> exc + string" where
  "read_pdfs B w [] text = Inr text"
| "read_pdfs B w (pdf_path # rest) text =
     (case reraise (''Error reading PDF '' @ pdf_path @ '': '')
             (case fs w pdf_path of
                None \<Rightarrow> Inl (FileNotFoundError (''PDF file not found: '' @ pdf_path))
              | Some f \<Rightarrow>
                  (case PdfReader B f of
                     Inl e \<Rightarrow> Inl e
                   | Inr pages \<Rightarrow> Inr (read_pages pages text))) of
        Inl e \<Rightarrow> Inl e
      | Inr text' \<Rightarrow> read_pdfs B w rest text')"

definition get_pdf_text ::
  "('f, 'emb, 'idx, 'llm) backend \<Rightarrow> 'f world \<Rightarrow> path list \<Rightarrow> exc + string" where
  "get_pdf_text B w pdf_paths =
     (case read_pdfs B w pdf_paths [] of
        Inl e \<Rightarrow> Inl e
      | Inr text \<Rightarrow>
          if strip text = []
          then Inl (Exception ''No text could be extracted from the provided PDFs'')
          else Inr text)"

text \<open>
  The index path that \<open>get_vector_store\<close>, \<open>process_question\<close> and
  \<open>process_question_simple\<close> each compute (rag.py, lines 82 to 83, 111 to 112 and
  177 to 178).
\<close>

definition index_path :: "('f, 'emb, 'idx, 'llm) backend \<Rightarrow> path" where
  "index_path B = path_join (module_dir B) ''faiss_index''"

text \<open>\<open>vector_store.save_local(p)\<close>: the one statement of rag.py that writes a file.\<close>

definition do_save_local ::
  "('f, 'emb, 'idx, 'llm) backend \<Rightarrow> 'idx \<Rightarrow> path \<Rightarrow> 'f world \<Rightarrow> (exc + unit) \<times> 'f world" where
  "do_save_local B vector_store p w =
     (case save_local B vector_store (fs w p) of
        (r, content) \<Rightarrow> (r, w\<lparr>fs := (fs w)(p := content), calls := calls w @ [SaveLocal p]\<rparr>))"

text \<open>\<open>get_vector_store\<close> (rag.py, lines 69 to 91).\<close>

definition get_vector_store ::
  "('f, 'emb, 'idx, 'llm) backend \<Rightarrow> string list \<Rightarrow> 'f world \<Rightarrow> (exc + 'idx) \<times> 'f world" where
  "get_vector_store B text_chunks =
     try_except ''Error creating vector store: ''
       (if text_chunks = [] then raise (ValueError ''No text chunks provided'')
        else
          andthen (lift (HuggingFaceEmbeddings B)) (\<lambda>embeddings.
          andthen (lift (from_texts B text_chunks embeddings)) (\<lambda>vector_store.
          andthen (do_save_local B vector_store (index_path B)) (\<lambda>_.
          andthen (print (''Vector store saved successfully at: '' @ index_path B)) (\<lambda>_.
          andthen (print (''Number of documents indexed: '' @ str_nat (length text_chunks))) (\<lambda>_.
          ret vector_store))))))"

text \<open>
  The ingest pipeline, as \<open>main\<close> gives it (rag.py, lines 283 to 285):
  \<open>get_pdf_text\<close>, then \<open>get_text_chunks\<close>, then \<open>get_vector_store\<close>.
\<close>

definition ingest ::
  "('f, 'emb, 'idx, 'llm) backend \<Rightarrow> path list \<Rightarrow> 'f world \<Rightarrow> (exc + 'idx) \<times> 'f world" where
  "ingest B pdf_paths w =
     (case get_pdf_text B w pdf_paths of
        Inl e \<Rightarrow> (Inl e, w)
      | Inr raw_text \<Rightarrow>
          (case get_text_chunks raw_text of
             Inl e \<Rightarrow> (Inl e, w)
           | Inr text_chunks \<Rightarrow> get_vector_store B text_chunks w))"

section \<open>Queries\<close>

text \<open>\<open>AVAILABLE_MODELS\<close> (rag.py, lines 15 to 22), in the order of the dictionary.\<close>

definition AVAILABLE_MODELS :: "(string \<times> string) list" where
  "AVAILABLE_MODELS =
     [(''llama-3.3-70b-versatile'', ''Meta Llama 3.3 70B (Production)''),
      (''llama-3.1-8b-instant'', ''Meta Llama 3.1 8B (Production)''),
      (''gemma2-9b-it'', ''Google Gemma 2 9B (Production)''),
      (''deepseek-r1-distill-llama-70b'', ''DeepSeek R1 Distill 70B (Preview)''),
      (''qwen/qwen3-32b'', ''Alibaba Qwen 3 32B (Preview)''),
      (''moonshotai/kimi-k2-instruct'', ''Moonshot AI Kimi K2 (Preview)'')]"

text \<open>
  The text of the prompt, which the two query functions spell out separately with
  the same words. \<open>template\<close> is the argument of \<open>ChatPromptTemplate.from_template\<close>
  (rag.py, lines 137 to 146), with the fields \<open>{context}\<close> and \<open>{input}\<close>;
  \<open>prompt_text\<close> is the f-string of \<open>process_question_simple\<close> (lines 212 to 221).
\<close>

definition template :: string where
  \<open>template =
     ''\<newline>        Answer the question as detailed as possible from the provided context. \<newline>'' @
     ''        If the answer is not in the provided context, just say "Answer is not available in the context". \<newline>'' @
     ''        Don'' @ [CHR 0x27] @ ''t provide incorrect information.\<newline>'' @
     ''        \<newline>'' @
     ''        Context: {context}\<newline>'' @
     ''        Question: {input}\<newline>'' @
     ''        \<newline>'' @
     ''        Answer:\<newline>'' @
     ''        ''\<close>

definition prompt_text :: "string \<Rightarrow> string \<Rightarrow> string" where
  \<open>prompt_text context user_question =
     ''\<newline>        Answer the question as detailed as possible from the provided context. \<newline>'' @
     ''        If the answer is not in the provided context, just say "Answer is not available in the context". \<newline>'' @
     ''        Don'' @ [CHR 0x27] @ ''t provide incorrect information.\<newline>'' @
     ''        \<newline>'' @
     ''        Context: '' @ context @ ''\<newline>'' @
     ''        Question: '' @ user_question @ ''\<newline>'' @
     ''        \<newline>'' @
     ''        Answer:\<newline>'' @
     ''        ''\<close>

text \<open>
  Filling in a template whose fields are plain names in braces, as \<open>str.format\<close>
  does for such a template: \<open>field\<close> is the name being read, \<open>out\<close> the text so far.
\<close>

fun format_template ::
  "(string \<Rightarrow> string option) \<Rightarrow> string \<Rightarrow> string option \<Rightarrow> string \<Rightarrow> exc + string" where
  "format_template vars [] None out = Inr out"
| "format_template vars [] (Some field) out =
     Inl (ValueError ''expected } before end of string'')"
| "format_template vars (c # cs) None out =
     (if c = CHR ''{'' then format_template vars cs (Some []) out
      else format_template vars cs None (out @ [c]))"
| "format_template vars (c # cs) (Some field) out =
     (if c = CHR ''}''
      then (case vars field of
              None \<Rightarrow> Inl (KeyError field)
            | Some v \<Rightarrow> format_template vars cs None (out @ v))
      else format_template vars cs (Some (field @ [c])) out)"

text \<open>
  Reading the world: \<open>os.path.exists\<close>, \<open>os.getenv\<close>, and the calls to the vector
  store and to the chat model, each written to \<open>calls\<close> when it is made.
\<close>

definition path_exists :: "path \<Rightarrow> 'f world \<Rightarrow> (exc + bool) \<times> 'f world" where
  "path_exists p w = (Inr (fs w p \<noteq> None), w)"

definition getenv :: "string \<Rightarrow> 'f world \<Rightarrow> (exc + string option) \<times> 'f world" where
  "getenv name w = (Inr (environ w name), w)"

definition do_load_local ::
  "('f, 'emb, 'idx, 'llm) backend \<Rightarrow> path \<Rightarrow> 'emb \<Rightarrow> 'f world \<Rightarrow> (exc + 'idx) \<times> 'f world" where
  "do_load_local B p embeddings w =
     (load_local B (fs w p) embeddings, w\<lparr>calls := calls w @ [LoadLocal p]\<rparr>)"

definition do_similarity_search ::
  "('f, 'emb, 'idx, 'llm) backend \<Rightarrow> 'idx \<Rightarrow> string \<Rightarrow> nat \<Rightarrow> 'f world
     \<Rightarrow> (exc + string list) \<times> 'f world" where
  "do_similarity_search B vector_store query k w =
     (similarity_search B vector_store query k, w\<lparr>calls := calls w @ [SimilaritySearch query k]\<rparr>)"

definition do_invoke ::
  "('f, 'emb, 'idx, 'llm) backend \<Rightarrow> 'llm \<Rightarrow> llm_config \<Rightarrow> string \<Rightarrow> 'f world
     \<Rightarrow> (exc + string) \<times> 'f world" where
  "do_invoke B llm cfg prompt w =
     (invoke B llm prompt, w\<lparr>calls := calls w @ [Invoke cfg prompt]\<rparr>)"

text \<open>
  \<open>process_question\<close> (rag.py, lines 93 to 164). The last four steps are
  \<open>retrieval_chain.invoke({"input": user_question})\<close>: the retriever searches with
  \<open>k = 4\<close>, the documents chain joins the \<open>page_content\<close> of the documents with a
  blank line into \<open>context\<close> and fills in the template, and the model's reply is
  returned as the answer.
\<close>

definition process_question ::
  "('f, 'emb, 'idx, 'llm) backend \<Rightarrow> string \<Rightarrow> string \<Rightarrow> 'f world \<Rightarrow> (exc + string) \<times> 'f world" where
  "process_question B user_question model_name =
     try_except ''Error processing question: ''
       (if strip user_question = [] then raise (ValueError ''Question cannot be empty'')
        else
          andthen (if model_name \<notin> set (map fst AVAILABLE_MODELS)
                   then print_all
                          ([''Warning: Model '' @ model_name
                              @ '' not in known models list. Available models:'']
                           @ map (\<lambda>(model_id, description). ''  - '' @ model_id @ '': '' @ description)
                               AVAILABLE_MODELS
                           @ [''Proceeding with the provided model name...''])
                   else ret ()) (\<lambda>_.
          andthen (lift (HuggingFaceEmbeddings B)) (\<lambda>embeddings.
          andthen (path_exists (index_path B)) (\<lambda>found.
          if \<not> found
          then raise (FileNotFoundError (''Vector store not found at '' @ index_path B
                        @ ''. Please run the PDF processing first.''))
          else
          andthen (do_load_local B (index_path B) embeddings) (\<lambda>vector_store.
          andthen (getenv ''GROQ_API_KEY'') (\<lambda>groq_api_key.
          if groq_api_key = None \<or> groq_api_key = Some []
          then raise (Exception ''GROQ_API_KEY not found in environment variables'')
          else
          let cfg = \<lparr>api_key = the groq_api_key, model = model_name,
                      temperature = 3 / 10, max_tokens = 4096\<rparr> in
          andthen (lift (ChatGroq B cfg)) (\<lambda>llm.
          andthen (do_similarity_search B vector_store user_question 4) (\<lambda>docs.
          andthen (lift (format_template
                           [''context'' \<mapsto> join [CHR 0x0A, CHR 0x0A] docs, ''input'' \<mapsto> user_question]
                           template None [])) (\<lambda>prompt.
          andthen (do_invoke B llm cfg prompt) (\<lambda>answer.
          ret answer))))))))))"

text \<open>\<open>process_question_simple\<close> (rag.py, lines 166 to 229).\<close>

definition process_question_simple ::
  "('f, 'emb, 'idx, 'llm) backend \<Rightarrow> string \<Rightarrow> string \<Rightarrow> 'f world \<Rightarrow> (exc + string) \<times> 'f world" where
  "process_question_simple B user_question model_name =
     try_except ''Error processing question: ''
       (if strip user_question = [] then raise (ValueError ''Question cannot be empty'')
        else
          andthen (lift (HuggingFaceEmbeddings B)) (\<lambda>embeddings.
          andthen (path_exists (index_path B)) (\<lambda>found.
          if \<not> found
          then raise (FileNotFoundError (''Vector store not found at '' @ index_path B
                        @ ''. Please run the PDF processing first.''))
          else
          andthen (do_load_local B (index_path B) embeddings) (\<lambda>vector_store.
          andthen (do_similarity_search B vector_store user_question 4) (\<lambda>docs.
          if docs = [] then ret ''No relevant documents found for your question.''
          else
          let context = join [CHR 0x0A, CHR 0x0A] docs in
          andthen (getenv ''GROQ_API_KEY'') (\<lambda>groq_api_key.
          if groq_api_key = None \<or> groq_api_key = Some []
          then raise (Exception ''GROQ_API_KEY not found in environment variables'')
          else
          let cfg = \<lparr>api_key = the groq_api_key, model = model_name,
                      temperature = 3 / 10, max_tokens = 4096\<rparr> in
          andthen (lift (ChatGroq B cfg)) (\<lambda>llm.
          andthen (do_invoke B llm cfg (prompt_text context user_question)) (\<lambda>content.
          ret content))))))))"

section \<open>The vector store's search\<close>

text \<open>
  Modelled from the spec: the nearest-neighbour search of the vector store, which
  is code of the FAISS library and of its langchain wrapper, not of rag.py. The
  spec's \<open>search(handle, query_vector, k)\<close> returns the \<open>k\<close> chunks whose vectors are
  nearest to the query vector under the index's distance metric, best first, and all
  of them when the index holds fewer than \<open>k\<close>. The index is its list of chunks with
  their vectors, the metric is a parameter, and a smaller distance is a greater
  similarity.
\<close>

definition scored :: "('v \<Rightarrow> 'v \<Rightarrow> 'd) \<Rightarrow> (string \<times> 'v) list \<Rightarrow> 'v \<Rightarrow> (string \<times> 'd) list" where
  "scored distance handle query_vector =
     map (\<lambda>(chunk, v). (chunk, distance query_vector v)) handle"

definition search ::
  "('v \<Rightarrow> 'v \<Rightarrow> 'd::linorder) \<Rightarrow> (string \<times> 'v) list \<Rightarrow> 'v \<Rightarrow> nat \<Rightarrow> (string \<times> 'd) list" where
  "search distance handle query_vector k =
     take k (sort_key snd (scored distance handle query_vector))"

section \<open>A small installation\<close>

text \<open>
  A backend and two worlds on which the functions can be run: a file holds the
  texts of its pages or the chunks of an index, the embedding model and the vector
  store always succeed, the search returns the first \<open>k\<close> chunks of the index, and
  the chat model always replies with the same sentence. \<open>fresh_world\<close> has one PDF
  and no index; \<open>empty_index_world\<close> has an index without chunks.
\<close>

definition example_backend :: "(string list, unit, string list, llm_config) backend" where
  "example_backend =
     \<lparr>module_dir = ''/srv/app/rag'',
      PdfReader = (\<lambda>f. Inr f),
      HuggingFaceEmbeddings = Inr (),
      from_texts = (\<lambda>texts embeddings. Inr texts),
      save_local = (\<lambda>vector_store old. (Inr (), Some vector_store)),
      load_local = (\<lambda>f embeddings.
         case f of None \<Rightarrow> Inl (LibraryError ''could not open the index'') | Some chunks \<Rightarrow> Inr chunks),
      similarity_search = (\<lambda>vector_store query k. Inr (take k vector_store)),
      ChatGroq = (\<lambda>cfg. Inr cfg),
      invoke = (\<lambda>llm prompt. Inr ''Chlorophyll converts sunlight into energy.'')\<rparr>"

definition lecture_page :: string where
  "lecture_page =
     ''Photosynthesis is the process by which chlorophyll converts sunlight into energy.''"

definition fresh_world :: "string list world" where
  "fresh_world =
     \<lparr>fs = [''lecture.pdf'' \<mapsto> [lecture_page]],
      environ = [''GROQ_API_KEY'' \<mapsto> ''gsk-example''],
      stdout = [],
      calls = []\<rparr>"

definition indexed_world :: "string list world" where
  "indexed_world =
     \<lparr>fs = [''/srv/app/rag/faiss_index'' \<mapsto> [lecture_page]],
      environ = [''GROQ_API_KEY'' \<mapsto> ''gsk-example''],
      stdout = [],
      calls = []\<rparr>"

definition empty_index_world :: "string list world" where
  "empty_index_world =
     \<lparr>fs = [''/srv/app/rag/faiss_index'' \<mapsto> []],
      environ = [''GROQ_API_KEY'' \<mapsto> ''gsk-example''],
      stdout = [],
      calls = []\<rparr>"

section \<open>The splitter returns, and its chunks are bounded\<close>

declare pop_current.simps [simp del]

lemma length_strip_le: "length (strip s) \<le> length s"
proof -
  have "length (strip s) \<le> length (dropWhile isspace s)"
    unfolding strip_def by (metis length_dropWhile_le length_rev)
  also have "\<dots> \<le> length s" by (rule length_dropWhile_le)
  finally show ?thesis .
qed

lemma join_empty_sep: "join [] xs = concat xs"
  by (induction "[] :: string" xs rule: join.induct) auto

lemma join_docs_length:
  "join_docs cur [] = Some doc \<Longrightarrow> length doc \<le> length (concat cur)"
  using length_strip_le [of "concat cur"]
  by (auto simp: join_docs_def Let_def join_empty_sep split: if_splits)

lemma join_docs_bound:
  "int (length (concat cur)) \<le> n \<Longrightarrow>
   \<forall>c\<in>set (case join_docs cur [] of None \<Rightarrow> [] | Some doc \<Rightarrow> [doc]). int (length c) \<le> n"
proof (cases "join_docs cur []")
  case None
  then show ?thesis by simp
next
  case (Some doc)
  assume "int (length (concat cur)) \<le> n"
  with join_docs_length [OF Some] show ?thesis using Some by simp
qed

lemma pop_current_ok:
  "tot = int (length (concat cur)) \<Longrightarrow>
   \<exists>cur' tot'. pop_current 0 len cur tot = Inr (cur', tot')
      \<and> tot' = int (length (concat cur'))
      \<and> (tot' + len \<le> chunk_size \<or> tot' \<le> 0)"
proof (induction cur arbitrary: tot)
  case Nil
  then show ?case by (simp add: pop_current.simps chunk_overlap_def)
next
  case (Cons d0 rest)
  show ?case
  proof (cases "tot > chunk_overlap \<or> (tot + len + 0 > chunk_size \<and> tot > 0)")
    case True
    have "pop_current 0 len (d0 # rest) tot = pop_current 0 len rest (tot - int (length d0))"
      using True by (subst pop_current.simps) simp
    moreover have "tot - int (length d0) = int (length (concat rest))"
      using Cons.prems by simp
    ultimately show ?thesis using Cons.IH by simp
  next
    case False
    then have "pop_current 0 len (d0 # rest) tot = Inr (d0 # rest, tot)"
      by (subst pop_current.simps) auto
    then show ?thesis using False Cons.prems by auto
  qed
qed

lemma merge_loop_ok:
  "tot = int (length (concat cur)) \<Longrightarrow> tot \<le> chunk_size \<Longrightarrow>
   \<forall>d\<in>set splits. int (length d) < chunk_size \<Longrightarrow>
   \<forall>c\<in>set docs. int (length c) \<le> chunk_size \<Longrightarrow>
   \<exists>out. merge_loop [] splits docs cur tot = Inr out \<and> (\<forall>c\<in>set out. int (length c) \<le> chunk_size)"
proof (induction splits arbitrary: docs cur tot)
  case Nil
  then show ?case
    using join_docs_bound [of cur chunk_size] by auto
next
  case (Cons d ds)
  let ?len = "int (length d)"
  have dlen: "?len < chunk_size" and rest: "\<forall>d\<in>set ds. int (length d) < chunk_size"
    using Cons.prems(3) by auto
  show ?case
  proof (cases "tot + ?len > chunk_size")
    case False
    have step: "merge_loop [] (d # ds) docs cur tot = merge_loop [] ds docs (cur @ [d]) (tot + ?len)"
      using False by simp
    have "\<exists>out. merge_loop [] ds docs (cur @ [d]) (tot + ?len) = Inr out
            \<and> (\<forall>c\<in>set out. int (length c) \<le> chunk_size)"
      using False Cons.prems(1,4) rest by (intro Cons.IH) auto
    then show ?thesis unfolding step .
  next
    case True
    then have ne: "cur \<noteq> []" using Cons.prems(1) dlen by auto
    obtain cur' tot' where pop: "pop_current 0 ?len cur tot = Inr (cur', tot')"
      and inv: "tot' = int (length (concat cur'))"
      and small: "tot' + ?len \<le> chunk_size \<or> tot' \<le> 0"
      using pop_current_ok [OF Cons.prems(1), of ?len] by blast
    let ?docs' = "docs @ (case join_docs cur [] of None \<Rightarrow> [] | Some doc \<Rightarrow> [doc])"
    have step: "merge_loop [] (d # ds) docs cur tot = merge_loop [] ds ?docs' (cur' @ [d]) (tot' + ?len)"
      using True ne pop by simp
    have docs': "\<forall>c\<in>set ?docs'. int (length c) \<le> chunk_size"
      using Cons.prems(1,2,4) join_docs_bound [of cur chunk_size] by auto
    have "tot' + ?len \<le> chunk_size" using small dlen by auto
    then have "\<exists>out. merge_loop [] ds ?docs' (cur' @ [d]) (tot' + ?len) = Inr out
            \<and> (\<forall>c\<in>set out. int (length c) \<le> chunk_size)"
      using inv docs' rest by (intro Cons.IH) auto
    then show ?thesis unfolding step .
  qed
qed

lemma merge_splits_ok:
  "\<forall>d\<in>set splits. int (length d) < chunk_size \<Longrightarrow>
   \<exists>out. merge_splits splits [] = Inr out \<and> (\<forall>c\<in>set out. int (length c) \<le> chunk_size)"
  unfolding merge_splits_def by (rule merge_loop_ok) (auto simp: chunk_size_def)


lemma flush_ok:
  "\<forall>g\<in>set good. int (length g) < chunk_size \<Longrightarrow>
   \<forall>c\<in>set final. int (length c) \<le> chunk_size \<Longrightarrow>
   \<exists>out. (if good \<noteq> []
           then (case merge_splits good [] of
                   Inl e \<Rightarrow> Inl e
                 | Inr merged_text \<Rightarrow> Inr (final @ merged_text))
           else Inr final) = Inr out
      \<and> (\<forall>c\<in>set out. int (length c) \<le> chunk_size)"
  using merge_splits_ok [of good] by auto

lemma split_loop_ok:
  "new_seps \<noteq> [] \<longrightarrow>
     (\<forall>s. \<exists>cs. recurse s = Inr cs \<and> (\<forall>c\<in>set cs. int (length c) \<le> chunk_size)) \<Longrightarrow>
   new_seps = [] \<longrightarrow> (\<forall>s\<in>set splits. int (length s) < chunk_size) \<Longrightarrow>
   \<forall>g\<in>set good. int (length g) < chunk_size \<Longrightarrow>
   \<forall>c\<in>set final. int (length c) \<le> chunk_size \<Longrightarrow>
   \<exists>out. split_loop recurse new_seps splits good final = Inr out
      \<and> (\<forall>c\<in>set out. int (length c) \<le> chunk_size)"
proof (induction splits arbitrary: good final)
  case Nil
  show ?case using flush_ok [OF Nil.prems(3,4)] by simp
next
  case (Cons s ss)
  have tail: "new_seps = [] \<longrightarrow> (\<forall>s\<in>set ss. int (length s) < chunk_size)"
    using Cons.prems(2) by simp
  show ?case
  proof (cases "int (length s) < chunk_size")
    case True
    have "\<exists>out. split_loop recurse new_seps ss (good @ [s]) final = Inr out
            \<and> (\<forall>c\<in>set out. int (length c) \<le> chunk_size)"
      using True Cons.prems(1,3,4) tail by (intro Cons.IH) auto
    then show ?thesis using True by simp
  next
    case False
    then have seps: "new_seps \<noteq> []" using Cons.prems(2) by auto
    obtain final' where fl: "(if good \<noteq> []
           then (case merge_splits good [] of
                   Inl e \<Rightarrow> Inl e
                 | Inr merged_text \<Rightarrow> Inr (final @ merged_text))
           else Inr final) = Inr final'"
      and final': "\<forall>c\<in>set final'. int (length c) \<le> chunk_size"
      using flush_ok [OF Cons.prems(3,4)] by blast
    obtain other_info where rec: "recurse s = Inr other_info"
      and other: "\<forall>c\<in>set other_info. int (length c) \<le> chunk_size"
      using Cons.prems(1) seps by blast
    have step: "split_loop recurse new_seps (s # ss) good final
                  = split_loop recurse new_seps ss [] (final' @ other_info)"
      using False seps rec fl by (simp del: split_loop.simps(1))
    have "\<exists>out. split_loop recurse new_seps ss [] (final' @ other_info) = Inr out
            \<and> (\<forall>c\<in>set out. int (length c) \<le> chunk_size)"
      using Cons.prems(1) tail final' other by (intro Cons.IH) auto
    then show ?thesis unfolding step .
  qed
qed

lemma find_separator_total:
  "[] \<in> set seps \<Longrightarrow>
   \<exists>s new. find_separator text seps = Some (s, new)
      \<and> ((s = [] \<and> new = []) \<or> (s \<noteq> [] \<and> [] \<in> set new))"
  by (induction seps) auto

lemma new_separators_cases:
  assumes "[] \<in> set seps"
  shows "(new_separators text seps = [] \<and> choose_separator text seps = [])
       \<or> [] \<in> set (new_separators text seps)"
  using find_separator_total [OF assms, of "text"]
  by (auto simp: new_separators_def choose_separator_def)

lemma split_chars_short:
  "\<forall>s\<in>set (split_text_with_regex text []). int (length s) < chunk_size"
  by (auto simp: split_text_with_regex_def chunk_size_def)

lemma split_text_rec_ok:
  "[] \<in> set seps \<Longrightarrow>
   \<exists>out. split_text_rec t seps = Inr out \<and> (\<forall>c\<in>set out. int (length c) \<le> chunk_size)"
proof (induction t seps rule: split_text_rec.induct)
  case (1 t seps)
  then have ne: "seps \<noteq> []" by auto
  let ?new = "new_separators t seps"
  have rec: "?new \<noteq> [] \<longrightarrow>
      (\<forall>s. \<exists>cs. split_text_rec s ?new = Inr cs \<and> (\<forall>c\<in>set cs. int (length c) \<le> chunk_size))"
    using new_separators_cases [OF "1.prems", of t] "1.IH" [OF ne] by auto
  have chars: "?new = [] \<longrightarrow>
      (\<forall>s\<in>set (split_text_with_regex t (choose_separator t seps)). int (length s) < chunk_size)"
    using new_separators_cases [OF "1.prems", of t] split_chars_short [of t] by auto
  have "\<exists>out. split_loop (\<lambda>s. split_text_rec s ?new) ?new
                 (split_text_with_regex t (choose_separator t seps)) [] [] = Inr out
          \<and> (\<forall>c\<in>set out. int (length c) \<le> chunk_size)"
    using rec chars by (intro split_loop_ok) auto
  then show ?case using ne by (subst split_text_rec.simps) simp
qed

lemma split_text_ok:
  "\<exists>chunks. split_text text = Inr chunks \<and> (\<forall>c\<in>set chunks. length c \<le> 1000)"
  using split_text_rec_ok [of separators "text"]
  by (auto simp: split_text_def separators_def chunk_size_def)

section \<open>The chunker\<close>

text \<open>
  C8. Every chunk that \<open>get_text_chunks\<close> returns is at most 1000 characters long,
  whatever the input text.
\<close>

theorem get_text_chunks_size_bound:
  "get_text_chunks t = Inr chunks \<Longrightarrow> \<forall>c\<in>set chunks. length c \<le> 1000"
proof -
  assume r: "get_text_chunks t = Inr chunks"
  obtain produced where p: "split_text t = Inr produced"
    and b: "\<forall>c\<in>set produced. length c \<le> 1000"
    using split_text_ok [of t] by blast
  have "set chunks \<subseteq> set produced"
    using r p by (auto simp: get_text_chunks_def reraise_def Let_def split: if_splits)
  then show ?thesis using b by blast
qed

theorem get_text_chunks_size_bound_witness:
  "get_text_chunks (replicate 60 CHR ''a'') = Inr [replicate 60 CHR ''a'']
   \<and> list_all (\<lambda>c. length c \<le> 1000) [replicate 60 CHR ''a'']"
proof -
  have r: "get_text_chunks (replicate 60 CHR ''a'') = Inr [replicate 60 CHR ''a'']"
    by code_simp
  have "\<forall>c\<in>set [replicate 60 CHR ''a'']. length c \<le> 1000"
    using get_text_chunks_size_bound [OF r] .
  then have "list_all (\<lambda>c. length c \<le> 1000) [replicate 60 CHR ''a'']"
    unfolding list_all_iff .
  with r show ?thesis by (rule conjI)
qed

text \<open>
  C2, as the code has it. The filter of \<open>get_text_chunks\<close> keeps a chunk exactly
  when its trimmed length is more than 50: the chunks returned are the splitter's
  chunks of trimmed length above 50, in the splitter's order, so none of them has a
  trimmed length of 50 or less.
\<close>

theorem get_text_chunks_filter:
  "get_text_chunks t = Inr chunks \<Longrightarrow>
   (\<exists>produced. split_text t = Inr produced
      \<and> chunks = filter (\<lambda>c. 50 < length (strip c)) produced)
   \<and> (\<forall>c\<in>set chunks. 50 < length (strip c))"
  by (auto simp: get_text_chunks_def reraise_def Let_def split: if_splits sum.splits)

theorem get_text_chunks_filter_witness:
  "get_text_chunks (replicate 60 CHR ''a'') = Inr [replicate 60 CHR ''a'']
   \<and> split_text (replicate 60 CHR ''a'') = Inr [replicate 60 CHR ''a'']
   \<and> list_all (\<lambda>c. 50 < length (strip c)) [replicate 60 CHR ''a'']"
proof -
  have r: "get_text_chunks (replicate 60 CHR ''a'') = Inr [replicate 60 CHR ''a'']"
    by code_simp
  have s: "split_text (replicate 60 CHR ''a'') = Inr [replicate 60 CHR ''a'']"
    by code_simp
  have "\<forall>c\<in>set [replicate 60 CHR ''a'']. 50 < length (strip c)"
    using get_text_chunks_filter [OF r] by (rule conjunct2)
  then have "list_all (\<lambda>c. 50 < length (strip c)) [replicate 60 CHR ''a'']"
    unfolding list_all_iff .
  with r s show ?thesis by (intro conjI)
qed

text \<open>
  C2 as stated fails on a chunk whose trimmed length is exactly 50: for a text of
  fifty letters the splitter produces that text as its one chunk, the chunk's
  trimmed length is 50, and \<open>get_text_chunks\<close> drops it (and, nothing being left,
  raises).
\<close>

theorem get_text_chunks_drops_fifty:
  "split_text (replicate 50 CHR ''a'') = Inr [replicate 50 CHR ''a'']
   \<and> length (strip (replicate 50 CHR ''a'')) = 50
   \<and> get_text_chunks (replicate 50 CHR ''a'')
       = Inl (Exception ''Error splitting text: No valid text chunks created'')"
  by code_simp

text \<open>
  C9. \<open>get_text_chunks\<close> raises "Input text is empty" for a text that is blank
  after trimming; for any other text the splitter returns, and \<open>get_text_chunks\<close>
  raises "No valid text chunks created" when the filter removes every chunk
  produced, and returns the chunks the filter keeps, at least one, otherwise.
\<close>

theorem get_text_chunks_cases:
  "(strip t = [] \<longrightarrow>
      get_text_chunks t = Inl (Exception ''Error splitting text: Input text is empty''))
   \<and> (strip t \<noteq> [] \<longrightarrow>
        (\<exists>produced. split_text t = Inr produced
           \<and> (filter (\<lambda>c. 50 < length (strip c)) produced = [] \<longrightarrow>
                get_text_chunks t
                  = Inl (Exception ''Error splitting text: No valid text chunks created''))
           \<and> (filter (\<lambda>c. 50 < length (strip c)) produced \<noteq> [] \<longrightarrow>
                get_text_chunks t = Inr (filter (\<lambda>c. 50 < length (strip c)) produced))))"
proof -
  obtain produced where p: "split_text t = Inr produced"
    using split_text_ok [of t] by blast
  show ?thesis
    using p by (simp add: get_text_chunks_def reraise_def Let_def)
qed

theorem get_text_chunks_cases_witness:
  "strip ''   '' = []
   \<and> get_text_chunks ''   '' = Inl (Exception ''Error splitting text: Input text is empty'')
   \<and> strip ''too short'' \<noteq> []
   \<and> split_text ''too short'' = Inr [''too short'']
   \<and> get_text_chunks ''too short''
       = Inl (Exception ''Error splitting text: No valid text chunks created'')
   \<and> strip (replicate 60 CHR ''a'') \<noteq> []
   \<and> get_text_chunks (replicate 60 CHR ''a'') = Inr [replicate 60 CHR ''a'']"
proof -
  have b: "strip ''   '' = []" by code_simp
  have n1: "strip ''too short'' \<noteq> []" by code_simp
  have s1: "split_text ''too short'' = Inr [''too short'']" by code_simp
  have f1: "filter (\<lambda>c. 50 < length (strip c)) [''too short''] = []" by code_simp
  have n2: "strip (replicate 60 CHR ''a'') \<noteq> []" by code_simp
  have s2: "split_text (replicate 60 CHR ''a'') = Inr [replicate 60 CHR ''a'']" by code_simp
  have f2: "filter (\<lambda>c. 50 < length (strip c)) [replicate 60 CHR ''a''] = [replicate 60 CHR ''a'']"
    by code_simp
  have g0: "get_text_chunks ''   '' = Inl (Exception ''Error splitting text: Input text is empty'')"
    using get_text_chunks_cases [of "''   ''"] b by blast
  have g1: "get_text_chunks ''too short''
              = Inl (Exception ''Error splitting text: No valid text chunks created'')"
    using get_text_chunks_cases [of "''too short''"] n1 s1 f1 by (metis sum.inject(2))
  have g2: "get_text_chunks (replicate 60 CHR ''a'') = Inr [replicate 60 CHR ''a'']"
    using get_text_chunks_cases [of "replicate 60 CHR ''a''"] n2 s2 f2
    by (metis sum.inject(2) list.distinct(1))
  from b g0 n1 s1 g1 n2 g2 show ?thesis by (intro conjI)
qed

section \<open>Running the statements\<close>

lemmas run_defs =
  try_except_def andthen_def lift_def raise_def ret_def print_def record_call_def
  path_exists_def getenv_def do_load_local_def do_similarity_search_def do_invoke_def
  do_save_local_def reraise_def

lemma print_all_run: "print_all ls w = (Inr (), w\<lparr>stdout := stdout w @ ls\<rparr>)"
  by (induction ls arbitrary: w) (simp_all add: andthen_def print_def)

lemma format_template_prompt:
  "format_template [''context'' \<mapsto> c, ''input'' \<mapsto> q] template None [] = Inr (prompt_text c q)"
  by (simp add: template_def prompt_text_def)

lemma get_vector_store_run:
  "get_vector_store B text_chunks w = (r, w') \<Longrightarrow>
   (\<exists>embeddings vector_store.
       text_chunks \<noteq> [] \<and> HuggingFaceEmbeddings B = Inr embeddings
       \<and> from_texts B text_chunks embeddings = Inr vector_store
       \<and> calls w' = calls w @ [SaveLocal (index_path B)]
       \<and> fs w' = (fs w)(index_path B := snd (save_local B vector_store (fs w (index_path B)))))
   \<or> (\<exists>e. r = Inl e \<and> fs w' = fs w \<and> calls w' = calls w)"
proof -
  assume run: "get_vector_store B text_chunks w = (r, w')"
  show ?thesis
  proof (cases "text_chunks = []")
    case True
    with run show ?thesis by (auto simp: get_vector_store_def run_defs)
  next
    case chunks: False
    show ?thesis
    proof (cases "HuggingFaceEmbeddings B")
      case (Inl e)
      with run chunks show ?thesis by (auto simp: get_vector_store_def run_defs)
    next
      case emb: (Inr embeddings)
      show ?thesis
      proof (cases "from_texts B text_chunks embeddings")
        case (Inl e)
        with run chunks emb show ?thesis by (auto simp: get_vector_store_def run_defs)
      next
        case store: (Inr vector_store)
        obtain saved content
          where sv: "save_local B vector_store (fs w (index_path B)) = (saved, content)"
          by (cases "save_local B vector_store (fs w (index_path B))")
        have "calls w' = calls w @ [SaveLocal (index_path B)]
            \<and> fs w' = (fs w)(index_path B := content)"
          using run chunks emb store sv
          by (cases saved) (auto simp: get_vector_store_def run_defs)
        with chunks emb store sv show ?thesis by auto
      qed
    qed
  qed
qed

section \<open>Ingestion\<close>

text \<open>
  C1. A run of the ingest pipeline either has every stage before the persist step
  succeed (text extraction, chunking, loading the embedding model, building the
  index), and then calls \<open>save_local\<close> once, on the index path, which is the only
  path whose content changes; or it fails, and then it has made no call to
  \<open>save_local\<close> and the file system is as it was before the call.
\<close>

theorem ingest_all_or_nothing:
  "ingest B pdf_paths w = (r, w') \<Longrightarrow>
   (\<exists>raw_text text_chunks embeddings vector_store.
       get_pdf_text B w pdf_paths = Inr raw_text
       \<and> get_text_chunks raw_text = Inr text_chunks
       \<and> HuggingFaceEmbeddings B = Inr embeddings
       \<and> from_texts B text_chunks embeddings = Inr vector_store
       \<and> calls w' = calls w @ [SaveLocal (index_path B)]
       \<and> fs w' = (fs w)(index_path B := snd (save_local B vector_store (fs w (index_path B)))))
   \<or> (\<exists>e. r = Inl e \<and> fs w' = fs w \<and> calls w' = calls w)"
proof (cases "get_pdf_text B w pdf_paths")
  case (Inl e)
  assume "ingest B pdf_paths w = (r, w')"
  with Inl show ?thesis by (auto simp: ingest_def)
next
  case raw: (Inr raw_text)
  assume run: "ingest B pdf_paths w = (r, w')"
  show ?thesis
  proof (cases "get_text_chunks raw_text")
    case (Inl e)
    with raw run show ?thesis by (auto simp: ingest_def)
  next
    case (Inr text_chunks)
    with raw run have "get_vector_store B text_chunks w = (r, w')"
      by (simp add: ingest_def)
    from get_vector_store_run [OF this] raw Inr show ?thesis by auto
  qed
qed

lemma lecture_chunks: "get_text_chunks (lecture_page @ [CHR 0x0A]) = Inr [lecture_page]"
  by code_simp

lemma lecture_text:
  "get_pdf_text example_backend fresh_world [''lecture.pdf''] = Inr (lecture_page @ [CHR 0x0A])"
  by code_simp

lemma lecture_store:
  "fst (get_vector_store example_backend [lecture_page] fresh_world) = Inr [lecture_page]"
  by (simp add: get_vector_store_def run_defs example_backend_def)

lemma lecture_ingest:
  "fst (ingest example_backend [''lecture.pdf''] fresh_world) = Inr [lecture_page]"
  by (simp add: ingest_def lecture_text lecture_chunks lecture_store)

lemma missing_pdf:
  "get_pdf_text example_backend fresh_world [''missing.pdf'']
     = Inl (Exception ''Error reading PDF missing.pdf: PDF file not found: missing.pdf'')"
  by code_simp

lemma pick_failed: "P \<or> (\<exists>e. r = Inl e \<and> F \<and> C) \<Longrightarrow> \<not> P \<Longrightarrow> F \<and> C"
  by blast

lemma pick_saved:
  "(\<exists>a b c d. A a \<and> B a b \<and> C c \<and> D b c d \<and> E \<and> G d) \<or> (\<exists>e. r = Inl e \<and> X) \<Longrightarrow> r = Inr v \<Longrightarrow> E"
  by auto

theorem ingest_all_or_nothing_witness:
  "get_pdf_text example_backend fresh_world [''missing.pdf'']
     = Inl (Exception ''Error reading PDF missing.pdf: PDF file not found: missing.pdf'')
   \<and> fs (snd (ingest example_backend [''missing.pdf''] fresh_world)) = fs fresh_world
   \<and> calls (snd (ingest example_backend [''missing.pdf''] fresh_world)) = calls fresh_world
   \<and> fst (ingest example_backend [''lecture.pdf''] fresh_world) = Inr [lecture_page]
   \<and> calls (snd (ingest example_backend [''lecture.pdf''] fresh_world))
       = calls fresh_world @ [SaveLocal (index_path example_backend)]"
proof -
  have no: "\<not> (\<exists>raw_text text_chunks embeddings vector_store.
       get_pdf_text example_backend fresh_world [''missing.pdf''] = Inr raw_text
       \<and> get_text_chunks raw_text = Inr text_chunks
       \<and> HuggingFaceEmbeddings example_backend = Inr embeddings
       \<and> from_texts example_backend text_chunks embeddings = Inr vector_store
       \<and> calls (snd (ingest example_backend [''missing.pdf''] fresh_world))
           = calls fresh_world @ [SaveLocal (index_path example_backend)]
       \<and> fs (snd (ingest example_backend [''missing.pdf''] fresh_world))
           = (fs fresh_world)(index_path example_backend :=
                snd (save_local example_backend vector_store
                       (fs fresh_world (index_path example_backend)))))"
    by (simp only: missing_pdf sum.distinct simp_thms)
  have 1: "fs (snd (ingest example_backend [''missing.pdf''] fresh_world)) = fs fresh_world
    \<and> calls (snd (ingest example_backend [''missing.pdf''] fresh_world)) = calls fresh_world"
    by (rule pick_failed [OF ingest_all_or_nothing [OF prod.collapse [symmetric]] no])
  have 3: "calls (snd (ingest example_backend [''lecture.pdf''] fresh_world))
       = calls fresh_world @ [SaveLocal (index_path example_backend)]"
    by (rule pick_saved [OF ingest_all_or_nothing [OF prod.collapse [symmetric]] lecture_ingest])
  show ?thesis
    by (intro conjI missing_pdf conjunct1 [OF 1] conjunct2 [OF 1] lecture_ingest 3)
qed

lemmas query_defs = process_question_def process_question_simple_def run_defs print_all_run
  format_template_prompt Let_def

lemma process_question_missing:
  assumes "fs w (index_path B) = None"
  shows "calls (snd (process_question B q m w)) = calls w"
    and "\<exists>e. fst (process_question B q m w) = Inl e"
    and "strip q \<noteq> [] \<Longrightarrow> HuggingFaceEmbeddings B = Inr emb \<Longrightarrow>
         fst (process_question B q m w)
           = Inl (Exception (''Error processing question: Vector store not found at ''
                   @ index_path B @ ''. Please run the PDF processing first.''))"
  using assms
  by (auto simp: query_defs split: sum.splits)

lemma process_question_simple_missing:
  assumes "fs w (index_path B) = None"
  shows "calls (snd (process_question_simple B q m w)) = calls w"
    and "\<exists>e. fst (process_question_simple B q m w) = Inl e"
    and "strip q \<noteq> [] \<Longrightarrow> HuggingFaceEmbeddings B = Inr emb \<Longrightarrow>
         fst (process_question_simple B q m w)
           = Inl (Exception (''Error processing question: Vector store not found at ''
                   @ index_path B @ ''. Please run the PDF processing first.''))"
  using assms
  by (auto simp: query_defs split: sum.splits)

lemma process_question_answer:
  "case process_question B q m w of
     (Inl e, w') \<Rightarrow> True
   | (Inr answer, w') \<Rightarrow>
       \<exists>llm cfg prompt. invoke B llm prompt = Inr answer
          \<and> calls w' = calls w @ [LoadLocal (index_path B), SimilaritySearch q 4, Invoke cfg prompt]"
  by (auto simp: query_defs split: sum.splits)

lemma process_question_simple_answer:
  "case process_question_simple B q m w of
     (Inl e, w') \<Rightarrow> True
   | (Inr answer, w') \<Rightarrow>
       (\<exists>llm cfg prompt. invoke B llm prompt = Inr answer
          \<and> calls w' = calls w @ [LoadLocal (index_path B), SimilaritySearch q 4, Invoke cfg prompt])
       \<or> (answer = ''No relevant documents found for your question.''
           \<and> (\<exists>vector_store. similarity_search B vector_store q 4 = Inr [])
           \<and> calls w' = calls w @ [LoadLocal (index_path B), SimilaritySearch q 4])"
  by (auto simp: query_defs split: sum.splits)

lemma query_modes_same:
  assumes "HuggingFaceEmbeddings B = Inr embeddings"
    and "load_local B (fs w (index_path B)) embeddings = Inr vector_store"
    and "similarity_search B vector_store q 4 = Inr docs"
    and "docs \<noteq> []"
  shows "fst (process_question B q m w) = fst (process_question_simple B q m w)"
  using assms
  by (auto simp: query_defs split: sum.splits)

lemma process_question_reaches_model:
  assumes "strip q \<noteq> []"
    and "HuggingFaceEmbeddings B = Inr embeddings"
    and "fs w (index_path B) \<noteq> None"
    and "load_local B (fs w (index_path B)) embeddings = Inr vector_store"
    and "environ w ''GROQ_API_KEY'' = Some key" and "key \<noteq> []"
    and "ChatGroq B \<lparr>api_key = key, model = m, temperature = 3 / 10, max_tokens = 4096\<rparr> = Inr llm"
    and "similarity_search B vector_store q 4 = Inr docs"
  shows "calls (snd (process_question B q m w))
           = calls w @ [LoadLocal (index_path B), SimilaritySearch q 4,
               Invoke \<lparr>api_key = key, model = m, temperature = 3 / 10, max_tokens = 4096\<rparr>
                 (prompt_text (join [CHR 0x0A, CHR 0x0A] docs) q)]"
    and "fst (process_question B q m w)
           = reraise ''Error processing question: ''
               (invoke B llm (prompt_text (join [CHR 0x0A, CHR 0x0A] docs) q))"
  using assms
  by (auto simp: query_defs split: sum.splits)

lemma process_question_simple_reaches_model:
  assumes "strip q \<noteq> []"
    and "HuggingFaceEmbeddings B = Inr embeddings"
    and "fs w (index_path B) \<noteq> None"
    and "load_local B (fs w (index_path B)) embeddings = Inr vector_store"
    and "environ w ''GROQ_API_KEY'' = Some key" and "key \<noteq> []"
    and "ChatGroq B \<lparr>api_key = key, model = m, temperature = 3 / 10, max_tokens = 4096\<rparr> = Inr llm"
    and "similarity_search B vector_store q 4 = Inr docs" and "docs \<noteq> []"
  shows "calls (snd (process_question_simple B q m w))
           = calls w @ [LoadLocal (index_path B), SimilaritySearch q 4,
               Invoke \<lparr>api_key = key, model = m, temperature = 3 / 10, max_tokens = 4096\<rparr>
                 (prompt_text (join [CHR 0x0A, CHR 0x0A] docs) q)]"
    and "fst (process_question_simple B q m w)
           = reraise ''Error processing question: ''
               (invoke B llm (prompt_text (join [CHR 0x0A, CHR 0x0A] docs) q))"
  using assms
  by (auto simp: query_defs split: sum.splits)

lemma template_has_fallback:
  \<open>template =
     (''\<newline>        Answer the question as detailed as possible from the provided context. \<newline>'' @
      ''        If the answer is not in the provided context, just say "'')
     @ ''Answer is not available in the context''
     @ (''". \<newline>'' @
        ''        Don'' @ [CHR 0x27] @ ''t provide incorrect information.\<newline>'' @
        ''        \<newline>'' @
        ''        Context: {context}\<newline>'' @
        ''        Question: {input}\<newline>'' @
        ''        \<newline>'' @
        ''        Answer:\<newline>'' @
        ''        '')\<close>
  by (simp add: template_def)

lemma prompt_has_fallback:
  \<open>prompt_text c q =
     (''\<newline>        Answer the question as detailed as possible from the provided context. \<newline>'' @
      ''        If the answer is not in the provided context, just say "'')
     @ ''Answer is not available in the context''
     @ (''". \<newline>'' @
        ''        Don'' @ [CHR 0x27] @ ''t provide incorrect information.\<newline>'' @
        ''        \<newline>'' @
        ''        Context: '' @ c @ ''\<newline>'' @
        ''        Question: '' @ q @ ''\<newline>'' @
        ''        \<newline>'' @
        ''        Answer:\<newline>'' @
        ''        '')\<close>
  by (simp add: prompt_text_def)

lemma prompt_has_context:
  \<open>prompt_text c q =
     (''\<newline>        Answer the question as detailed as possible from the provided context. \<newline>'' @
      ''        If the answer is not in the provided context, just say "Answer is not available in the context". \<newline>'' @
      ''        Don'' @ [CHR 0x27] @ ''t provide incorrect information.\<newline>'' @
      ''        \<newline>'' @
      ''        '')
     @ (''Context: '' @ c)
     @ (''\<newline>'' @
        ''        Question: '' @ q @ ''\<newline>'' @
        ''        \<newline>'' @
        ''        Answer:\<newline>'' @
        ''        '')\<close>
  by (simp add: prompt_text_def)

lemma example_facts:
  "strip ''What converts sunlight into energy?'' \<noteq> []"
  "strip ''   '' = []"
  "index_path example_backend = ''/srv/app/rag/faiss_index''"
  by code_simp+

lemma example_worlds:
  "fs fresh_world ''/srv/app/rag/faiss_index'' = None"
  "fs indexed_world ''/srv/app/rag/faiss_index'' = Some [lecture_page]"
  "fs empty_index_world ''/srv/app/rag/faiss_index'' = Some []"
  "environ indexed_world ''GROQ_API_KEY'' = Some ''gsk-example''"
  "environ empty_index_world ''GROQ_API_KEY'' = Some ''gsk-example''"
  "calls fresh_world = []" "calls indexed_world = []" "calls empty_index_world = []"
  by (simp_all add: fresh_world_def indexed_world_def empty_index_world_def)

lemma example_backend_calls:
  "HuggingFaceEmbeddings example_backend = Inr ()"
  "load_local example_backend (Some chunks) () = Inr chunks"
  "similarity_search example_backend chunks q k = Inr (take k chunks)"
  "ChatGroq example_backend cfg = Inr cfg"
  "invoke example_backend llm prompt = Inr ''Chlorophyll converts sunlight into energy.''"
  "from_texts example_backend texts () = Inr texts"
  "save_local example_backend vector_store old = (Inr (), Some vector_store)"
  by (simp_all add: example_backend_def)

section \<open>Queries\<close>

text \<open>
  C5, as the code has it. When the index path does not exist, both query functions
  fail, and neither loads an index, searches it or invokes the chat model. The
  failure is the "Vector store not found" error when the question is not blank and
  the embedding model has loaded, the two steps that come before the test for the
  index path.
\<close>

theorem query_without_index:
  "fs w (index_path B) = None \<Longrightarrow>
   (\<exists>e. fst (process_question B q m w) = Inl e)
   \<and> (\<exists>e. fst (process_question_simple B q m w) = Inl e)
   \<and> calls (snd (process_question B q m w)) = calls w
   \<and> calls (snd (process_question_simple B q m w)) = calls w
   \<and> (strip q \<noteq> [] \<and> HuggingFaceEmbeddings B = Inr embeddings \<longrightarrow>
        fst (process_question B q m w)
          = Inl (Exception (''Error processing question: Vector store not found at ''
                  @ index_path B @ ''. Please run the PDF processing first.''))
        \<and> fst (process_question_simple B q m w)
          = Inl (Exception (''Error processing question: Vector store not found at ''
                  @ index_path B @ ''. Please run the PDF processing first.'')))"
proof -
  assume none: "fs w (index_path B) = None"
  note chain = process_question_missing [OF none, where q = q and m = m]
  note simple = process_question_simple_missing [OF none, where q = q and m = m]
  show ?thesis
    using chain(1,2) simple(1,2) chain(3) [where emb = embeddings]
      simple(3) [where emb = embeddings]
    by blast
qed

theorem query_without_index_witness:
  "fs fresh_world (index_path example_backend) = None
   \<and> strip ''What converts sunlight into energy?'' \<noteq> []
   \<and> HuggingFaceEmbeddings example_backend = Inr ()
   \<and> fst (process_question example_backend ''What converts sunlight into energy?''
            ''llama-3.3-70b-versatile'' fresh_world)
       = Inl (Exception (''Error processing question: Vector store not found at ''
               @ index_path example_backend @ ''. Please run the PDF processing first.''))
   \<and> fst (process_question_simple example_backend ''What converts sunlight into energy?''
            ''llama-3.3-70b-versatile'' fresh_world)
       = Inl (Exception (''Error processing question: Vector store not found at ''
               @ index_path example_backend @ ''. Please run the PDF processing first.''))
   \<and> calls (snd (process_question example_backend ''What converts sunlight into energy?''
            ''llama-3.3-70b-versatile'' fresh_world)) = calls fresh_world
   \<and> calls (snd (process_question_simple example_backend ''What converts sunlight into energy?''
            ''llama-3.3-70b-versatile'' fresh_world)) = calls fresh_world"
proof -
  have none: "fs fresh_world (index_path example_backend) = None"
    by (simp only: example_facts example_worlds)
  note t = query_without_index [OF none, where q = "''What converts sunlight into energy?''"
      and m = "''llama-3.3-70b-versatile''" and embeddings = "()"]
  from t none example_facts(1) example_backend_calls(1) show ?thesis by blast
qed

text \<open>
  C5 as stated fails for a blank question: with no index at the path, both query
  functions fail with "Question cannot be empty", not with the index error.
\<close>

theorem query_without_index_blank_question:
  "fs fresh_world (index_path example_backend) = None
   \<and> fst (process_question example_backend ''   '' ''llama-3.3-70b-versatile'' fresh_world)
       = Inl (Exception ''Error processing question: Question cannot be empty'')
   \<and> fst (process_question_simple example_backend ''   '' ''llama-3.3-70b-versatile'' fresh_world)
       = Inl (Exception ''Error processing question: Question cannot be empty'')"
  by (simp add: example_facts example_worlds query_defs)

end
